theory Spec2Isabelle
  imports Complex_Main "HOL-Library.Multiset"
begin

section \<open>Mock fraud scorer (dashboard script, \<open>generateEnhancedMockPrediction\<close>)\<close>

text \<open>
  The form data that \<open>checkTransaction\<close> builds from the page: the amount comes from
  \<open>parseFloat\<close>, the account age from \<open>parseInt\<close>, the channel is the value of a select
  box and the KYC flag is the comparison of a select box with \<open>"Yes"\<close>.
  JavaScript numbers are modelled as reals.
\<close>

record formData =
  customer_id :: string
  account_age_days :: int
  transaction_amount :: real
  channel :: string
  kyc_verified :: bool
  timestamp :: string

text \<open>
  The object returned by the scorer.  \<open>llm_explanation\<close> is an element read from an array
  by index; a read outside the array gives \<open>undefined\<close> in JavaScript, which is \<open>None\<close> here.
\<close>

record mockResult =
  is_fraud :: bool
  prediction :: nat
  fraud :: bool
  risk_score :: real
  confidence :: real
  rules_triggered :: "string list"
  llm_explanation :: "string option"

text \<open>
  \<open>Math.random()\<close> is the ambient random source.  It is modelled as the sequence of the
  values it hands out, together with the number of values already consumed: the \<open>pos\<close>
  field of the scorer's state.  The other fields are the three local variables of the
  function.
\<close>

type_synonym random_source = "nat \<Rightarrow> real"

record scorer_state =
  isFraud :: bool
  riskScore :: real
  rulesTriggered :: "string list"
  pos :: nat

text \<open>
  \<open>let isFraud = false; let riskScore = Math.random() * 0.3 + 0.7; let rulesTriggered = [];\<close>
\<close>

definition scorer_init :: "random_source \<Rightarrow> scorer_state" where
  "scorer_init rnd =
     \<lparr>isFraud = False, riskScore = rnd 0 * 0.3 + 0.7, rulesTriggered = [], pos = 1\<rparr>"

text \<open>
  \<open>isFraud || Math.random() > t\<close>: the right operand is evaluated, and a random value
  consumed, only when \<open>isFraud\<close> is still false.
\<close>

definition or_random :: "random_source \<Rightarrow> real \<Rightarrow> scorer_state \<Rightarrow> bool \<times> nat" where
  "or_random rnd t s =
     (if isFraud s then (True, pos s) else (rnd (pos s) > t, Suc (pos s)))"

text \<open>\<open>if (formData.transaction_amount > 10000) { isFraud = Math.random() > 0.3; ... }\<close>\<close>

definition rule_amount :: "random_source \<Rightarrow> formData \<Rightarrow> scorer_state \<Rightarrow> scorer_state" where
  "rule_amount rnd fd s =
     (if transaction_amount fd > 10000
      then \<lparr>isFraud = rnd (pos s) > 0.3,
            riskScore = riskScore s + 0.2,
            rulesTriggered = rulesTriggered s @ [''Amount exceeds threshold''],
            pos = Suc (pos s)\<rparr>
      else s)"

text \<open>\<open>if (formData.account_age_days < 30) { isFraud = isFraud || Math.random() > 0.6; ... }\<close>\<close>

definition rule_new_account :: "random_source \<Rightarrow> formData \<Rightarrow> scorer_state \<Rightarrow> scorer_state" where
  "rule_new_account rnd fd s =
     (if account_age_days fd < 30
      then \<lparr>isFraud = fst (or_random rnd 0.6 s),
            riskScore = riskScore s + 0.15,
            rulesTriggered = rulesTriggered s @ [''New account with limited history''],
            pos = snd (or_random rnd 0.6 s)\<rparr>
      else s)"

text \<open>\<open>if (!formData.kyc_verified) { isFraud = isFraud || Math.random() > 0.5; ... }\<close>\<close>

definition rule_kyc :: "random_source \<Rightarrow> formData \<Rightarrow> scorer_state \<Rightarrow> scorer_state" where
  "rule_kyc rnd fd s =
     (if kyc_verified fd then s
      else \<lparr>isFraud = fst (or_random rnd 0.5 s),
            riskScore = riskScore s + 0.1,
            rulesTriggered = rulesTriggered s @ [''KYC verification pending''],
            pos = snd (or_random rnd 0.5 s)\<rparr>)"

text \<open>
  \<open>if (formData.channel === "mobile" && formData.transaction_amount > 5000)
  { isFraud = isFraud || Math.random() > 0.4; ... }\<close>
\<close>

definition rule_mobile :: "random_source \<Rightarrow> formData \<Rightarrow> scorer_state \<Rightarrow> scorer_state" where
  "rule_mobile rnd fd s =
     (if channel fd = ''mobile'' \<and> transaction_amount fd > 5000
      then \<lparr>isFraud = fst (or_random rnd 0.4 s),
            riskScore = riskScore s + 0.1,
            rulesTriggered = rulesTriggered s @ [''High mobile transaction''],
            pos = snd (or_random rnd 0.4 s)\<rparr>
      else s)"

text \<open>The four rules, in the order of the source.\<close>

definition scorer_rules :: "random_source \<Rightarrow> formData \<Rightarrow> scorer_state" where
  "scorer_rules rnd fd =
     rule_mobile rnd fd (rule_kyc rnd fd (rule_new_account rnd fd (rule_amount rnd fd (scorer_init rnd))))"

text \<open>\<open>riskScore = Math.min(0.95, Math.max(0.05, riskScore));\<close>\<close>

definition normalize_risk :: "real \<Rightarrow> real" where
  "normalize_risk r = min 0.95 (max 0.05 r)"

subsection \<open>The explanation generator (\<open>generateLLMExplanation\<close>)\<close>

text \<open>
  The two pools of template strings.  \<open>numStr\<close> is the conversion of a number to a string
  that a template literal performs; it is a built-in of the language and is taken as a
  parameter.
\<close>

definition explanations_fraud :: "(real \<Rightarrow> string) \<Rightarrow> formData \<Rightarrow> string list" where
  "explanations_fraud numStr fd =
     [''This transaction exhibits suspicious patterns including ''
        @ (if transaction_amount fd > 10000 then ''unusually high amount'' else ''suspicious timing'')
        @ '' and ''
        @ (if account_age_days fd < 30 then ''new account activity'' else ''unverified channel usage'')
        @ ''.'',
      ''Multiple risk factors detected: ''
        @ (if kyc_verified fd then ''KYC verified but '' else '''')
        @ ''transaction from '' @ channel fd @ '' channel with ''
        @ numStr (of_int (account_age_days fd))
        @ ''-day old account raises security concerns.'',
      ''Fraud pattern matched: '' @ numStr (transaction_amount fd)
        @ '' amount transaction from ''
        @ (if account_age_days fd < 7 then ''very new'' else ''relatively new'')
        @ '' account via '' @ channel fd @ ''.'']"

definition explanations_legitimate :: "(real \<Rightarrow> string) \<Rightarrow> formData \<Rightarrow> string list" where
  "explanations_legitimate numStr fd =
     [''Transaction appears legitimate with normal patterns: ''
        @ (if kyc_verified fd then ''KYC verified'' else ''standard verification'')
        @ '' and consistent account behavior.'',
      ''No significant risk factors detected. Transaction amount and channel usage align with typical customer behavior for ''
        @ numStr (of_int (account_age_days fd)) @ ''-day old account.'',
      ''Standard transaction pattern: Amount within expected range and verified through ''
        @ channel fd @ '' channel.'']"

text \<open>\<open>xs[k]\<close> for a number \<open>k\<close> that is an integer: \<open>undefined\<close> outside the array.\<close>

definition js_index :: "'a list \<Rightarrow> int \<Rightarrow> 'a option" where
  "js_index xs k = (if 0 \<le> k \<and> nat k < length xs then Some (xs ! nat k) else None)"

text \<open>
  \<open>explanations[type][Math.floor(Math.random() * explanations[type].length)]\<close>; the
  random value is the one at position \<open>p\<close> of the source.
\<close>

definition generateLLMExplanation ::
  "(real \<Rightarrow> string) \<Rightarrow> random_source \<Rightarrow> nat \<Rightarrow> formData \<Rightarrow> bool \<Rightarrow> real \<Rightarrow> string option" where
  "generateLLMExplanation numStr rnd p fd isFraudulent score =
     (let pool = (if isFraudulent then explanations_fraud numStr fd
                  else explanations_legitimate numStr fd)
      in js_index pool \<lfloor>rnd p * real (length pool)\<rfloor>)"

subsection \<open>The scorer\<close>

definition generateEnhancedMockPrediction ::
  "(real \<Rightarrow> string) \<Rightarrow> random_source \<Rightarrow> formData \<Rightarrow> mockResult" where
  "generateEnhancedMockPrediction numStr rnd fd =
     (let s = scorer_rules rnd fd;
          r = normalize_risk (riskScore s)
      in \<lparr>is_fraud = isFraud s,
          prediction = (if isFraud s then 1 else 0),
          fraud = isFraud s,
          risk_score = r,
          confidence = r,
          rules_triggered = rulesTriggered s,
          llm_explanation = generateLLMExplanation numStr rnd (pos s) fd (isFraud s) r\<rparr>)"

text \<open>Inputs used to exercise the scorer.\<close>

definition fd_all_rules :: formData where
  "fd_all_rules =
     \<lparr>customer_id = ''C1'', account_age_days = 5, transaction_amount = 75000,
      channel = ''mobile'', kyc_verified = False, timestamp = ''2025-11-01T03:00''\<rparr>"

definition fd_no_rules :: formData where
  "fd_no_rules =
     \<lparr>customer_id = ''C2'', account_age_days = 365, transaction_amount = 5000,
      channel = ''TRANSFER'', kyc_verified = True, timestamp = ''2025-11-01T03:00''\<rparr>"

definition fd_negative_amount :: formData where
  "fd_negative_amount =
     \<lparr>customer_id = ''C3'', account_age_days = 10, transaction_amount = - 250,
      channel = ''mobile'', kyc_verified = False, timestamp = ''2025-11-01T03:00''\<rparr>"

definition rnd_half :: random_source where
  "rnd_half = (\<lambda>_. 1 / 2)"

definition numStr_const :: "real \<Rightarrow> string" where
  "numStr_const = (\<lambda>_. ''n'')"

section \<open>Transaction history in local storage\<close>

text \<open>
  The history is kept under the key \<open>transactionHistory\<close> of the browser's local storage
  as the JSON text of an array of records.  The model keeps the array itself: \<open>None\<close> is
  the absent key, which \<open>JSON.parse(localStorage.getItem("transactionHistory") || "[]")\<close>
  reads as the empty array.  The save functions write records of different shapes into
  the same array.  \<open>Date.now()\<close> and \<open>new Date().toISOString()\<close> are passed in as \<open>now\<close>
  and \<open>nowIso\<close>.  A field whose value is \<open>undefined\<close> is \<open>None\<close>.
\<close>

datatype record_id = IdNum nat | IdStr string

record enhancedRecord =
  er_id :: nat
  er_timestamp :: string
  er_customer_id :: string
  er_transaction_amount :: real
  er_account_age_days :: int
  er_channel :: string
  er_kyc_verified :: bool
  er_is_fraud :: bool
  er_risk_score :: real
  er_confidence :: real
  er_status :: string
  er_llm_explanation :: "string option"
  er_rules_triggered :: "string list"

text \<open>The response of the prediction service, as \<open>saveToTransactionHistory\<close> reads it.\<close>

record apiResult =
  ar_transaction_id :: "string option"
  ar_timestamp :: "string option"
  ar_is_fraud :: bool
  ar_fraud_probability :: real
  ar_risk_score :: real
  ar_reason :: string
  ar_rules_triggered :: "string list"

record basicRecord =
  br_id :: record_id
  br_timestamp :: string
  br_transactionAmount :: "real option"
  br_kycVerified :: bool
  br_accountAge :: "int option"
  br_channel :: string
  br_is_fraud :: bool
  br_fraud_probability :: real
  br_risk_score :: real
  br_confidence :: real
  br_reason :: string
  br_rules_triggered :: "string list"
  br_status :: string

text \<open>The record of the later declaration of \<open>saveToTransactionHistory\<close>.\<close>

record plainRecord =
  pr_id :: string
  pr_timestamp :: string
  pr_customer_id :: string
  pr_transaction_amount :: real
  pr_kyc_verified :: bool
  pr_account_age_days :: int
  pr_channel :: string
  pr_is_fraud :: bool
  pr_status :: string

datatype history_entry = Enhanced enhancedRecord | Basic basicRecord | Plain plainRecord

record localStorage =
  transactionHistory :: "history_entry list option"

definition getHistory :: "localStorage \<Rightarrow> history_entry list" where
  "getHistory st = (case transactionHistory st of None \<Rightarrow> [] | Some h \<Rightarrow> h)"

text \<open>
  \<open>result.is_fraud || result.prediction === 1 || result.fraud === true\<close>, as
  \<open>saveToEnhancedTransactionHistory\<close> and the later \<open>saveToTransactionHistory\<close> compute it.
\<close>

definition result_is_fraud :: "mockResult \<Rightarrow> bool" where
  "result_is_fraud res = (is_fraud res \<or> prediction res = 1 \<or> fraud res)"

text \<open>
  The record built by \<open>saveToEnhancedTransactionHistory\<close>.  \<open>a || b\<close> yields \<open>a\<close> unless
  \<open>a\<close> is falsy (the number 0, the empty string, \<open>undefined\<close>); the mock result has no
  \<open>reason\<close> field, so the second operand of \<open>result.llm_explanation || result.reason\<close> is
  \<open>undefined\<close>.
\<close>

definition enhancedTransactionRecord ::
  "nat \<Rightarrow> string \<Rightarrow> formData \<Rightarrow> mockResult \<Rightarrow> enhancedRecord" where
  "enhancedTransactionRecord now nowIso fd res =
     \<lparr>er_id = now,
      er_timestamp = nowIso,
      er_customer_id = customer_id fd,
      er_transaction_amount = transaction_amount fd,
      er_account_age_days = account_age_days fd,
      er_channel = channel fd,
      er_kyc_verified = kyc_verified fd,
      er_is_fraud = result_is_fraud res,
      er_risk_score = (if risk_score res \<noteq> 0 then risk_score res else confidence res),
      er_confidence = confidence res,
      er_status = (if result_is_fraud res then ''Fraud'' else ''Legitimate''),
      er_llm_explanation =
        (case llm_explanation res of None \<Rightarrow> None
         | Some e \<Rightarrow> if e = [] then None else Some e),
      er_rules_triggered = rules_triggered res\<rparr>"

text \<open>
  \<open>saveToEnhancedTransactionHistory\<close>: \<open>history.unshift(transactionRecord)\<close>, then the
  whole array is written back.  This is the function \<open>checkTransaction\<close> calls, on the
  service's answer and on the mock scorer's.
\<close>

definition saveToEnhancedTransactionHistory ::
  "nat \<Rightarrow> string \<Rightarrow> formData \<Rightarrow> mockResult \<Rightarrow> localStorage \<Rightarrow> localStorage" where
  "saveToEnhancedTransactionHistory now nowIso fd res st =
     (let history = getHistory st;
          history = Enhanced (enhancedTransactionRecord now nowIso fd res) # history
      in st\<lparr>transactionHistory := Some history\<rparr>)"

text \<open>
  The script declares \<open>saveToTransactionHistory\<close> twice.  Function declarations of one
  script are bound when it is loaded, the later one replacing the earlier, so the later
  declaration is the function that runs; the earlier one is kept here under the name
  \<open>saveToTransactionHistory_first\<close>.

  The record built by the first declaration.  The form data has no \<open>transactionAmount\<close>
  or \<open>accountAge\<close> field, so the second operand of each of these \<open>||\<close> is \<open>undefined\<close>.
\<close>

definition basicTransactionRecord ::
  "nat \<Rightarrow> string \<Rightarrow> formData \<Rightarrow> apiResult \<Rightarrow> basicRecord" where
  "basicTransactionRecord now nowIso fd res =
     \<lparr>br_id = (case ar_transaction_id res of None \<Rightarrow> IdNum now
               | Some t \<Rightarrow> if t = [] then IdNum now else IdStr t),
      br_timestamp = (case ar_timestamp res of None \<Rightarrow> nowIso
               | Some t \<Rightarrow> if t = [] then nowIso else t),
      br_transactionAmount =
        (if transaction_amount fd \<noteq> 0 then Some (transaction_amount fd) else None),
      br_kycVerified = kyc_verified fd,
      br_accountAge =
        (if account_age_days fd \<noteq> 0 then Some (account_age_days fd) else None),
      br_channel = channel fd,
      br_is_fraud = ar_is_fraud res,
      br_fraud_probability = ar_fraud_probability res,
      br_risk_score = ar_risk_score res,
      br_confidence = ar_fraud_probability res,
      br_reason = ar_reason res,
      br_rules_triggered = ar_rules_triggered res,
      br_status = (if ar_is_fraud res then ''Fraud'' else ''Legitimate'')\<rparr>"

text \<open>
  The first declaration of \<open>saveToTransactionHistory\<close> (commented "Keep only last 100
  transactions"): \<open>unshift\<close>, then \<open>if (history.length > 100) history = history.slice(0, 100)\<close>.
\<close>

definition saveToTransactionHistory_first ::
  "nat \<Rightarrow> string \<Rightarrow> formData \<Rightarrow> apiResult \<Rightarrow> localStorage \<Rightarrow> localStorage" where
  "saveToTransactionHistory_first now nowIso fd res st =
     (let history = getHistory st;
          history = Basic (basicTransactionRecord now nowIso fd res) # history;
          history = (if length history > 100 then take 100 history else history)
      in st\<lparr>transactionHistory := Some history\<rparr>)"

text \<open>
  The later declaration of \<open>saveToTransactionHistory\<close>, the one in effect.  Its record has
  the id \<open>'T/' + Date.now()\<close>, a string; \<open>numStr\<close> is the conversion of the number.  It
  prepends the record and writes the array back, with no \<open>slice\<close>.
\<close>

definition plainTransactionRecord ::
  "(real \<Rightarrow> string) \<Rightarrow> nat \<Rightarrow> string \<Rightarrow> formData \<Rightarrow> mockResult \<Rightarrow> plainRecord" where
  "plainTransactionRecord numStr now nowIso fd res =
     \<lparr>pr_id = ''T/'' @ numStr (real now),
      pr_timestamp = nowIso,
      pr_customer_id = customer_id fd,
      pr_transaction_amount = transaction_amount fd,
      pr_kyc_verified = kyc_verified fd,
      pr_account_age_days = account_age_days fd,
      pr_channel = channel fd,
      pr_is_fraud = result_is_fraud res,
      pr_status = (if result_is_fraud res then ''Fraud'' else ''Legitimate'')\<rparr>"

definition saveToTransactionHistory ::
  "(real \<Rightarrow> string) \<Rightarrow> nat \<Rightarrow> string \<Rightarrow> formData \<Rightarrow> mockResult \<Rightarrow> localStorage \<Rightarrow> localStorage" where
  "saveToTransactionHistory numStr now nowIso fd res st =
     (let history = getHistory st;
          history = Plain (plainTransactionRecord numStr now nowIso fd res) # history
      in st\<lparr>transactionHistory := Some history\<rparr>)"

text \<open>A store whose history already holds 100 records, and a scorer result to save.\<close>

definition res_no_rules :: mockResult where
  "res_no_rules = generateEnhancedMockPrediction numStr_const rnd_half fd_no_rules"

definition full_storage :: localStorage where
  "full_storage =
     \<lparr>transactionHistory =
        Some (replicate 100 (Enhanced (enhancedTransactionRecord 0 ''t0'' fd_no_rules res_no_rules)))\<rparr>"

section \<open>CSV analytics\<close>

subsection \<open>JavaScript numbers that may be infinite or NaN\<close>

text \<open>
  The quality metrics divide by counts that can be zero.  Division of numbers never raises
  in JavaScript: \<open>0 / 0\<close> is NaN and \<open>x / 0\<close> is an infinity.  Signed zeros are not
  modelled (a divisor below that is zero is always a count).
\<close>

datatype jsnum = Num real | PosInf | NegInf | NaN

fun js_div :: "jsnum \<Rightarrow> jsnum \<Rightarrow> jsnum" where
  "js_div (Num a) (Num b) =
     (if b = 0 then (if a = 0 then NaN else if a > 0 then PosInf else NegInf)
      else Num (a / b))"
| "js_div (Num a) PosInf = Num 0"
| "js_div (Num a) NegInf = Num 0"
| "js_div PosInf (Num b) = (if b < 0 then NegInf else PosInf)"
| "js_div NegInf (Num b) = (if b < 0 then PosInf else NegInf)"
| "js_div _ _ = NaN"

fun js_mul :: "jsnum \<Rightarrow> jsnum \<Rightarrow> jsnum" where
  "js_mul (Num a) (Num b) = Num (a * b)"
| "js_mul (Num a) PosInf = (if a = 0 then NaN else if a > 0 then PosInf else NegInf)"
| "js_mul (Num a) NegInf = (if a = 0 then NaN else if a > 0 then NegInf else PosInf)"
| "js_mul PosInf (Num b) = (if b = 0 then NaN else if b > 0 then PosInf else NegInf)"
| "js_mul NegInf (Num b) = (if b = 0 then NaN else if b > 0 then NegInf else PosInf)"
| "js_mul PosInf PosInf = PosInf"
| "js_mul PosInf NegInf = NegInf"
| "js_mul NegInf PosInf = NegInf"
| "js_mul NegInf NegInf = PosInf"
| "js_mul _ _ = NaN"

fun js_add :: "jsnum \<Rightarrow> jsnum \<Rightarrow> jsnum" where
  "js_add (Num a) (Num b) = Num (a + b)"
| "js_add NaN _ = NaN"
| "js_add _ NaN = NaN"
| "js_add PosInf NegInf = NaN"
| "js_add NegInf PosInf = NaN"
| "js_add PosInf _ = PosInf"
| "js_add _ PosInf = PosInf"
| "js_add NegInf _ = NegInf"
| "js_add _ NegInf = NegInf"

text \<open>\<open>Math.round\<close>: the nearest integer, halves rounded up; NaN and the infinities stay.\<close>

fun js_round :: "jsnum \<Rightarrow> jsnum" where
  "js_round (Num a) = Num (of_int \<lfloor>a + 1 / 2\<rfloor>)"
| "js_round x = x"

subsection \<open>The parsed dataset\<close>

text \<open>
  \<open>parseCSV\<close> returns the header names and one object per data line, from header name to
  cell text.  \<open>row[header]\<close> of a missing property is \<open>undefined\<close>, here \<open>None\<close>.
\<close>

type_synonym row = "string \<rightharpoonup> string"

record dataset =
  headers :: "string list"
  data :: "row list"
  rawText :: string

text \<open>
  \<open>String.prototype.trim\<close> on the whitespace and line terminator characters of ASCII
  (the ones beyond ASCII are not characters of the model's strings).
\<close>

definition js_whitespace :: "char \<Rightarrow> bool" where
  "js_whitespace c =
     (c \<in> set [CHR 0x09, CHR 0x0A, CHR 0x0B, CHR 0x0C, CHR 0x0D, CHR 0x20])"

definition js_trim :: "string \<Rightarrow> string" where
  "js_trim s = rev (dropWhile js_whitespace (rev (dropWhile js_whitespace s)))"

text \<open>\<open>!row[header] || row[header].trim() === ""\<close>\<close>

definition cell_missing :: "string option \<Rightarrow> bool" where
  "cell_missing v = (case v of None \<Rightarrow> True | Some s \<Rightarrow> s = [] \<or> js_trim s = [])"

subsection \<open>The CSV parser (\<open>parseCSV\<close>)\<close>

text \<open>
  \<open>s.split(sep)\<close> for a one-character separator: the pieces between the separators, the
  empty string giving one empty piece.
\<close>

fun js_split :: "char \<Rightarrow> string \<Rightarrow> string list" where
  "js_split sep [] = [[]]"
| "js_split sep (c # cs) =
     (if c = sep then [] # js_split sep cs
      else (case js_split sep cs of [] \<Rightarrow> [[c]] | w # ws \<Rightarrow> (c # w) # ws))"

text \<open>\<open>line.split(",").map((v) => v.trim().replace(/"/g, ""))\<close>\<close>

definition csv_fields :: "string \<Rightarrow> string list" where
  "csv_fields line =
     map (\<lambda>v. filter (\<lambda>c. c \<noteq> CHR 0x22) (js_trim v)) (js_split (CHR '','') line)"

text \<open>
  \<open>headers.forEach((header, index) => { row[header] = values[index] || ""; })\<close>:
  a missing trailing field and an empty field both give the empty string, and a header
  name that occurs twice keeps the later field.
\<close>

definition csv_row :: "string list \<Rightarrow> string list \<Rightarrow> row" where
  "csv_row hs values =
     foldl (\<lambda>row (index, header).
              row(header \<mapsto> (case js_index values (int index) of None \<Rightarrow> [] | Some v \<Rightarrow> v)))
           Map.empty (enumerate 0 hs)"

text \<open>
  \<open>parseCSV\<close>: the lines that are not blank; the first is the header line, each other line
  is a row.  With no such line \<open>lines[0]\<close> is \<open>undefined\<close> and \<open>lines[0].split\<close>
  throws a \<open>TypeError\<close>, which \<open>processCSVFile\<close> catches and reports with an alert.
\<close>

datatype js_error = TypeError

definition parseCSV :: "string \<Rightarrow> js_error + dataset" where
  "parseCSV csvText =
     (let lines = filter (\<lambda>line. js_trim line \<noteq> []) (js_split (CHR 0x0A) csvText)
      in case lines of
           [] \<Rightarrow> Inl TypeError
         | first # rest \<Rightarrow>
             Inr \<lparr>headers = csv_fields first,
                  data = map (\<lambda>line. csv_row (csv_fields first) (csv_fields line)) rest,
                  rawText = csvText\<rparr>)"

subsection \<open>Quality metrics (\<open>displayDataQuality\<close> and its helpers)\<close>

text \<open>
  \<open>calculateDataConsistency\<close>: the rows in which every header has a present cell, over the
  number of rows, times 100, rounded.
\<close>

definition calculateDataConsistency :: "dataset \<Rightarrow> jsnum" where
  "calculateDataConsistency ds =
     (let consistentRows =
            length (filter (\<lambda>row. list_all (\<lambda>header. \<not> cell_missing (row header)) (headers ds))
                      (data ds))
      in js_round (js_mul (js_div (Num (real consistentRows)) (Num (real (length (data ds)))))
                          (Num 100)))"

text \<open>
  \<open>calculateDataUniqueness\<close>:
  \<open>const uniqueRows = new Set(data.map((row) => JSON.stringify(row))).length;\<close>
  A \<open>Set\<close> has a \<open>size\<close> and no \<open>length\<close>, so \<open>uniqueRows\<close> is \<open>undefined\<close>, which the
  division converts to NaN.
\<close>

definition calculateDataUniqueness :: "dataset \<Rightarrow> jsnum" where
  "calculateDataUniqueness ds =
     (let uniqueRows = NaN
      in js_round (js_mul (js_div uniqueRows (Num (real (length (data ds))))) (Num 100)))"

text \<open>
  The four metrics of \<open>displayDataQuality\<close>.  The completeness is the number handed to
  \<open>toFixed(2)\<close>, which prints NaN as \<open>"NaN"\<close>; the decimal formatting itself is not
  modelled.
\<close>

record qualityMetrics =
  completeness :: jsnum
  consistency :: jsnum
  uniqueness :: jsnum
  emptyCells :: nat

definition displayDataQuality :: "dataset \<Rightarrow> qualityMetrics" where
  "displayDataQuality ds =
     (let totalCells = length (headers ds) * length (data ds);
          empties = foldl (\<lambda>count row.
                       count + length (filter (\<lambda>header. cell_missing (row header)) (headers ds)))
                     0 (data ds)
      in \<lparr>completeness =
            js_mul (js_div (Num (real totalCells - real empties)) (Num (real totalCells)))
                   (Num 100),
          consistency = calculateDataConsistency ds,
          uniqueness = calculateDataUniqueness ds,
          emptyCells = empties\<rparr>)"

text \<open>The dataset of a file that holds the header line \<open>a,b\<close> and no data line.\<close>

definition header_only_dataset :: dataset where
  "header_only_dataset = \<lparr>headers = [''a'', ''b''], data = [], rawText = ''a,b''\<rparr>"

subsection \<open>Type inference (\<open>inferDataType\<close>)\<close>

text \<open>
  The values of a column as \<open>displayColumnAnalysis\<close> collects them:
  \<open>data.map((row) => row[header]).filter((v) => v && v.trim() !== "")\<close>.
\<close>

definition columnValues :: "dataset \<Rightarrow> string \<Rightarrow> string list" where
  "columnValues ds header =
     List.map_filter (\<lambda>row. if cell_missing (row header) then None else row header) (data ds)"

text \<open>
  \<open>isNaN(v)\<close> on a string converts it with the language's string-to-number grammar, and
  \<open>Date.parse\<close> is implementation-defined; both are parameters: \<open>strIsNaN v\<close> stands for
  \<open>isNaN(v)\<close> and \<open>dateIsNaN v\<close> for \<open>isNaN(Date.parse(v))\<close>.
\<close>

definition inferDataType :: "(string \<Rightarrow> bool) \<Rightarrow> (string \<Rightarrow> bool) \<Rightarrow> string list \<Rightarrow> string" where
  "inferDataType strIsNaN dateIsNaN values =
     (if length values = 0 then ''Unknown''
      else
        let sample = take 100 values;
            numericCount = length (filter (\<lambda>v. \<not> strIsNaN v \<and> js_trim v \<noteq> []) sample);
            dateCount = length (filter (\<lambda>v. \<not> dateIsNaN v \<and> js_trim v \<noteq> []) sample)
        in if real numericCount / real (length sample) > 0.8 then ''Numeric''
           else if real dateCount / real (length sample) > 0.8 then ''Date''
           else ''Text'')"

definition columnDataType :: "(string \<Rightarrow> bool) \<Rightarrow> (string \<Rightarrow> bool) \<Rightarrow> dataset \<Rightarrow> string \<Rightarrow> string" where
  "columnDataType strIsNaN dateIsNaN ds header =
     inferDataType strIsNaN dateIsNaN (columnValues ds header)"

text \<open>
  Instances of the two parameters for concrete runs.  \<open>digitsIsNaN\<close> agrees with \<open>isNaN\<close>
  on non-empty strings of decimal digits (numbers) and on strings of letters (NaN).
  \<open>dateNever\<close> and \<open>dateAlways\<close> are the two extremes of what a date parser may accept.
\<close>

definition digitsIsNaN :: "string \<Rightarrow> bool" where
  "digitsIsNaN s = (s = [] \<or> \<not> list_all (\<lambda>c. c \<in> set ''0123456789'') s)"

definition dateNever :: "string \<Rightarrow> bool" where
  "dateNever s = True"

definition dateAlways :: "string \<Rightarrow> bool" where
  "dateAlways s = False"

definition four_of_five :: "string list" where
  "four_of_five = [''1'', ''2'', ''3'', ''4'', ''abc'']"

definition five_of_six :: "string list" where
  "five_of_six = [''1'', ''2'', ''3'', ''4'', ''abc'', ''5'']"

subsection \<open>Rounded arithmetic\<close>

text \<open>
  The numbers of the script are IEEE doubles: an arithmetic operation or \<open>Math.sqrt\<close>
  returns the exact result rounded to a double, or an infinity when the exact result is
  beyond the range of the doubles.  The rounding is a parameter \<open>fl\<close> of every function
  below that computes with cell values; it is applied to an exact finite result, while
  an infinite or NaN result needs no rounding.  Nothing is assumed of \<open>fl\<close>.
\<close>

type_synonym rounding = "real \<Rightarrow> jsnum"

fun rounded :: "rounding \<Rightarrow> jsnum \<Rightarrow> jsnum" where
  "rounded fl (Num a) = fl a"
| "rounded fl v = v"

fun js_neg :: "jsnum \<Rightarrow> jsnum" where
  "js_neg (Num a) = Num (- a)"
| "js_neg PosInf = NegInf"
| "js_neg NegInf = PosInf"
| "js_neg NaN = NaN"

text \<open>\<open>Math.sqrt\<close>: NaN for a negative argument.\<close>

fun js_sqrt :: "jsnum \<Rightarrow> jsnum" where
  "js_sqrt (Num a) = (if a < 0 then NaN else Num (sqrt a))"
| "js_sqrt PosInf = PosInf"
| "js_sqrt v = NaN"

definition fadd :: "rounding \<Rightarrow> jsnum \<Rightarrow> jsnum \<Rightarrow> jsnum" where
  "fadd fl a b = rounded fl (js_add a b)"

definition fsub :: "rounding \<Rightarrow> jsnum \<Rightarrow> jsnum \<Rightarrow> jsnum" where
  "fsub fl a b = rounded fl (js_add a (js_neg b))"

definition fmul :: "rounding \<Rightarrow> jsnum \<Rightarrow> jsnum \<Rightarrow> jsnum" where
  "fmul fl a b = rounded fl (js_mul a b)"

definition fdiv :: "rounding \<Rightarrow> jsnum \<Rightarrow> jsnum \<Rightarrow> jsnum" where
  "fdiv fl a b = rounded fl (js_div a b)"

definition fsqrt :: "rounding \<Rightarrow> jsnum \<Rightarrow> jsnum" where
  "fsqrt fl a = rounded fl (js_sqrt a)"

text \<open>\<open>a === b\<close> on numbers: NaN is not equal to anything, itself included.\<close>

definition js_strict_equal :: "jsnum \<Rightarrow> jsnum \<Rightarrow> bool" where
  "js_strict_equal a b = (a \<noteq> NaN \<and> b \<noteq> NaN \<and> a = b)"

text \<open>
  The rounding that changes nothing.  Under it the model computes what the doubles compute
  whenever every intermediate result is a double, as with whole numbers of moderate size.
\<close>

definition exact :: rounding where
  "exact = Num"




subsection \<open>Numeric cell values\<close>

text \<open>
  \<open>data.map((row) => parseFloat(row[col])).filter((v) => !isNaN(v))\<close>.  \<open>parseFloat\<close> is a
  built-in and a parameter of the model; it may return NaN or an infinity (for the text
  \<open>Infinity\<close>), and \<open>parseFloat(undefined)\<close> is NaN.  The filter removes NaN only.
\<close>

definition numericValues :: "(string \<Rightarrow> jsnum) \<Rightarrow> row list \<Rightarrow> string \<Rightarrow> jsnum list" where
  "numericValues parseFloat rows col =
     filter (\<lambda>v. v \<noteq> NaN)
       (map (\<lambda>row. case row col of None \<Rightarrow> NaN | Some s \<Rightarrow> parseFloat s) rows)"

text \<open>
  The columns that \<open>displayDataDistribution\<close> and \<open>displayCorrelationAnalysis\<close> take for
  numeric: \<open>values.length > 0 && !isNaN(values[0])\<close> on the non-empty cell texts.
\<close>

definition numericColumns :: "(string \<Rightarrow> bool) \<Rightarrow> dataset \<Rightarrow> string list" where
  "numericColumns strIsNaN ds =
     filter (\<lambda>header. case columnValues ds header of [] \<Rightarrow> False | v # _ \<Rightarrow> \<not> strIsNaN v)
       (headers ds)"

subsection \<open>Median (\<open>calculateMedian\<close>)\<close>

text \<open>
  \<open>xs[k]\<close> used as a number: \<open>undefined\<close>, the value of a read outside the array, becomes
  NaN in an addition.
\<close>

definition js_index_num :: "jsnum list \<Rightarrow> int \<Rightarrow> jsnum" where
  "js_index_num xs k = (case js_index xs k of None \<Rightarrow> NaN | Some x \<Rightarrow> x)"

text \<open>
  The comparator \<open>(a, b) => a - b\<close>: \<open>a\<close> may stay in front of \<open>b\<close> unless the difference
  is positive.  The sign of a difference of doubles is not changed by rounding, so the
  exact difference is used.
\<close>

definition js_compare_le :: "jsnum \<Rightarrow> jsnum \<Rightarrow> bool" where
  "js_compare_le a b =
     (case js_add a (js_neg b) of Num d \<Rightarrow> d \<le> 0 | PosInf \<Rightarrow> False | _ \<Rightarrow> True)"

fun js_insort :: "jsnum \<Rightarrow> jsnum list \<Rightarrow> jsnum list" where
  "js_insort x [] = [x]"
| "js_insort x (y # ys) = (if js_compare_le x y then x # y # ys else y # js_insort x ys)"

text \<open>
  \<open>values.sort((a, b) => a - b)\<close>.  On an array without NaN the comparator is consistent
  and every sorting method gives the one ascending arrangement; with a NaN in the array
  the language leaves the order to the implementation, which is \<open>None\<close> here (the callers
  filter NaN out).
\<close>

definition js_sort_numbers :: "jsnum list \<Rightarrow> jsnum list option" where
  "js_sort_numbers xs = (if NaN \<in> set xs then None else Some (foldr js_insort xs []))"

text \<open>
  \<open>const sorted = values.sort((a, b) => a - b);\<close>
  \<open>Array.prototype.sort\<close> sorts the array it is called on and returns that same array, so
  \<open>sorted\<close> and the caller's \<open>values\<close> are one object.  The model returns the median
  together with the contents of the caller's array after the call.
\<close>

definition calculateMedian :: "rounding \<Rightarrow> jsnum list \<Rightarrow> (jsnum \<times> jsnum list) option" where
  "calculateMedian fl values =
     (case js_sort_numbers values of
        None \<Rightarrow> None
      | Some arranged \<Rightarrow>
          let sorted = arranged;
              mid = length sorted div 2
          in Some (if length sorted mod 2 = 0
                   then fdiv fl (fadd fl (js_index_num sorted (int mid - 1))
                                         (js_index_num sorted (int mid)))
                                (Num 2)
                   else js_index_num sorted (int mid),
                   sorted))"

text \<open>
  The call in \<open>displayDataDistribution\<close>: the array handed to \<open>calculateMedian\<close> is built
  on the spot by \<open>map\<close> and \<open>filter\<close>, and the rows of the dataset are only read.
\<close>

definition distributionMedian ::
  "rounding \<Rightarrow> (string \<Rightarrow> jsnum) \<Rightarrow> dataset \<Rightarrow> string \<Rightarrow> (jsnum \<times> jsnum list) option" where
  "distributionMedian fl parseFloat ds col =
     (let values = numericValues parseFloat (data ds) col
      in calculateMedian fl values)"

subsection \<open>Correlation (\<open>calculateCorrelation\<close>, \<open>calculateCorrelationMatrix\<close>)\<close>

text \<open>
  \<open>x.reduce((a, b, i) => a + b * y[i], 0)\<close> runs over the indices of \<open>x\<close>; it is reached
  only when \<open>x\<close> and \<open>y\<close> have the same length, so every \<open>y[i]\<close> exists.
  \<open>denominator === 0\<close> is false for a NaN denominator.
\<close>

definition calculateCorrelation :: "rounding \<Rightarrow> jsnum list \<Rightarrow> jsnum list \<Rightarrow> jsnum" where
  "calculateCorrelation fl x y =
     (if length x \<noteq> length y \<or> length x = 0 then Num 0
      else
        let n = Num (real (length x));
            sumX = foldl (\<lambda>a b. fadd fl a b) (Num 0) x;
            sumY = foldl (\<lambda>a b. fadd fl a b) (Num 0) y;
            sumXY = foldl (\<lambda>a (b, yi). fadd fl a (fmul fl b yi)) (Num 0) (zip x y);
            sumX2 = foldl (\<lambda>a b. fadd fl a (fmul fl b b)) (Num 0) x;
            sumY2 = foldl (\<lambda>a b. fadd fl a (fmul fl b b)) (Num 0) y;
            numerator = fsub fl (fmul fl n sumXY) (fmul fl sumX sumY);
            denominator =
              fsqrt fl (fmul fl (fsub fl (fmul fl n sumX2) (fmul fl sumX sumX))
                                (fsub fl (fmul fl n sumY2) (fmul fl sumY sumY)))
        in if denominator = Num 0 then Num 0 else fdiv fl numerator denominator)"

definition calculateCorrelationMatrix ::
  "rounding \<Rightarrow> (string \<Rightarrow> jsnum) \<Rightarrow> string list \<Rightarrow> row list \<Rightarrow> jsnum list list" where
  "calculateCorrelationMatrix fl parseFloat columns rows =
     map (\<lambda>i. map (\<lambda>j. if i = j then Num 1.0
                       else calculateCorrelation fl (numericValues parseFloat rows (columns ! i))
                                                    (numericValues parseFloat rows (columns ! j)))
                [0..<length columns])
         [0..<length columns]"

text \<open>
  \<open>displayCorrelationAnalysis\<close>: with fewer than two numeric columns it shows a notice and
  computes no matrix (\<open>None\<close>); otherwise it computes the matrix over the numeric columns.
\<close>

definition displayCorrelationAnalysis ::
  "rounding \<Rightarrow> (string \<Rightarrow> bool) \<Rightarrow> (string \<Rightarrow> jsnum) \<Rightarrow> dataset \<Rightarrow> jsnum list list option" where
  "displayCorrelationAnalysis fl strIsNaN parseFloat ds =
     (let columns = numericColumns strIsNaN ds
      in if length columns < 2 then None
         else Some (calculateCorrelationMatrix fl parseFloat columns (data ds)))"

text \<open>
  The part of the correlation that is handed to \<open>Math.sqrt\<close>, named for the statements
  about it.
\<close>

definition correlation_radicand :: "rounding \<Rightarrow> jsnum list \<Rightarrow> jsnum list \<Rightarrow> jsnum" where
  "correlation_radicand fl x y =
     (let n = Num (real (length x));
          sumX = foldl (\<lambda>a b. fadd fl a b) (Num 0) x;
          sumY = foldl (\<lambda>a b. fadd fl a b) (Num 0) y;
          sumX2 = foldl (\<lambda>a b. fadd fl a (fmul fl b b)) (Num 0) x;
          sumY2 = foldl (\<lambda>a b. fadd fl a (fmul fl b b)) (Num 0) y
      in fmul fl (fsub fl (fmul fl n sumX2) (fmul fl sumX sumX))
                 (fsub fl (fmul fl n sumY2) (fmul fl sumY sumY)))"

text \<open>
  Instances of the built-ins for concrete runs.  \<open>simpleParseFloat\<close> agrees with
  \<open>parseFloat\<close>, and \<open>simpleIsNaN\<close> with \<open>isNaN\<close>, on the text \<open>Infinity\<close>, on non-empty
  strings of decimal digits below 2 to the 53 and on strings of letters.
\<close>

definition simpleParseFloat :: "string \<Rightarrow> jsnum" where
  "simpleParseFloat s =
     (if s = ''Infinity'' then PosInf
      else if digitsIsNaN s then NaN
      else Num (foldl (\<lambda>a c. 10 * a + real (of_char c - 48)) 0 s))"

definition simpleIsNaN :: "string \<Rightarrow> bool" where
  "simpleIsNaN s = (s \<noteq> ''Infinity'' \<and> digitsIsNaN s)"





text \<open>The rows of the CSV text with the lines \<open>a,b\<close>, \<open>1,2\<close>, \<open>3,4\<close>, \<open>5,6\<close>.\<close>

definition abRow :: "string \<Rightarrow> string \<Rightarrow> row" where
  "abRow va vb = [''a'' \<mapsto> va, ''b'' \<mapsto> vb]"

definition abRows :: "row list" where
  "abRows = [abRow ''1'' ''2'', abRow ''3'' ''4'', abRow ''5'' ''6'']"

definition abText :: string where
  "abText = ''a,b'' @ [CHR 0x0A] @ ''1,2'' @ [CHR 0x0A] @ ''3,4'' @ [CHR 0x0A] @ ''5,6''"

text \<open>A CSV text with an infinite cell: the lines \<open>a,b\<close>, \<open>Infinity,1\<close>, \<open>2,3\<close>.\<close>

definition infText :: string where
  "infText = ''a,b'' @ [CHR 0x0A] @ ''Infinity,1'' @ [CHR 0x0A] @ ''2,3''"

definition infDataset :: dataset where
  "infDataset =
     \<lparr>headers = [''a'', ''b''], data = [abRow ''Infinity'' ''1'', abRow ''2'' ''3''],
      rawText = infText\<rparr>"



text \<open>A CSV text with one numeric column: the lines \<open>a\<close>, \<open>3\<close>, \<open>1\<close>, \<open>2\<close>.\<close>

definition unsortedText :: string where
  "unsortedText = ''a'' @ [CHR 0x0A] @ ''3'' @ [CHR 0x0A] @ ''1'' @ [CHR 0x0A] @ ''2''"

definition unsortedDataset :: dataset where
  "unsortedDataset =
     \<lparr>headers = [''a''], data = [[''a'' \<mapsto> ''3''], [''a'' \<mapsto> ''1''], [''a'' \<mapsto> ''2'']],
      rawText = unsortedText\<rparr>"

section \<open>Properties of the scorer\<close>

lemma normalize_risk_bounds: "0.05 \<le> normalize_risk r \<and> normalize_risk r \<le> 0.95"
  by (simp add: normalize_risk_def)

lemma normalize_risk_mono: "a \<le> b \<Longrightarrow> normalize_risk a \<le> normalize_risk b"
  by (simp add: normalize_risk_def min_def max_def)

lemma risk_score_eq:
  "risk_score (generateEnhancedMockPrediction numStr rnd fd)
     = normalize_risk (riskScore (scorer_rules rnd fd))"
  by (simp add: generateEnhancedMockPrediction_def Let_def)

text \<open>
  Claim C1.  Whatever the form data and whatever values the random source hands out, the
  risk score of the returned object lies between 0.05 and 0.95, both included.
\<close>

theorem C1_risk_score_clamped:
  "0.05 \<le> risk_score (generateEnhancedMockPrediction numStr rnd fd)
   \<and> risk_score (generateEnhancedMockPrediction numStr rnd fd) \<le> 0.95"
  unfolding risk_score_eq by (rule normalize_risk_bounds)

lemmas rule_defs = scorer_rules_def rule_mobile_def rule_kyc_def rule_new_account_def
  rule_amount_def scorer_init_def

lemma rules_triggered_eq:
  "rules_triggered (generateEnhancedMockPrediction numStr rnd fd) = rulesTriggered (scorer_rules rnd fd)"
  by (simp add: generateEnhancedMockPrediction_def Let_def)

lemma is_fraud_eq:
  "is_fraud (generateEnhancedMockPrediction numStr rnd fd) = isFraud (scorer_rules rnd fd)"
  by (simp add: generateEnhancedMockPrediction_def Let_def)

text \<open>The state after the rules when all four fire, and when none does.\<close>

lemma scorer_rules_all:
  assumes "transaction_amount fd > 10000" "account_age_days fd < 30" "\<not> kyc_verified fd"
    "channel fd = ''mobile''"
  shows "rulesTriggered (scorer_rules rnd fd) =
           [''Amount exceeds threshold'', ''New account with limited history'',
            ''KYC verification pending'', ''High mobile transaction'']"
    and "riskScore (scorer_rules rnd fd) = rnd 0 * 0.3 + 0.7 + 0.2 + 0.15 + 0.1 + 0.1"
  using assms by (simp_all add: rule_defs)

lemma scorer_rules_none:
  assumes "transaction_amount fd \<le> 10000" "account_age_days fd \<ge> 30" "kyc_verified fd"
    "\<not> (channel fd = ''mobile'' \<and> transaction_amount fd > 5000)"
  shows "scorer_rules rnd fd = scorer_init rnd"
  using assms
  by (auto simp add: scorer_rules_def rule_mobile_def rule_kyc_def rule_new_account_def
      rule_amount_def)

text \<open>
  Claim C2.  When the amount is above 10,000, the account is younger than 30 days, KYC is
  not verified and the channel is mobile (with the amount above 5,000), the returned
  \<open>rules_triggered\<close> is the list of the four rule names in the order amount, new account,
  KYC, mobile; its length is 4.  This holds for every random sequence.
\<close>

theorem C2_all_four_rules:
  assumes "transaction_amount fd > 10000" and "account_age_days fd < 30"
    and "\<not> kyc_verified fd"
    and "channel fd = ''mobile'' \<and> transaction_amount fd > 5000"
  shows "rules_triggered (generateEnhancedMockPrediction numStr rnd fd) =
           [''Amount exceeds threshold'', ''New account with limited history'',
            ''KYC verification pending'', ''High mobile transaction'']
         \<and> length (rules_triggered (generateEnhancedMockPrediction numStr rnd fd)) = 4"
  using assms by (simp add: rules_triggered_eq scorer_rules_all(1))

theorem C2_all_four_rules_witness:
  "transaction_amount fd_all_rules > 10000 \<and> account_age_days fd_all_rules < 30
   \<and> \<not> kyc_verified fd_all_rules
   \<and> channel fd_all_rules = ''mobile'' \<and> transaction_amount fd_all_rules > 5000
   \<and> rules_triggered (generateEnhancedMockPrediction numStr_const rnd_half fd_all_rules) =
        [''Amount exceeds threshold'', ''New account with limited history'',
         ''KYC verification pending'', ''High mobile transaction'']"
  using C2_all_four_rules [of fd_all_rules numStr_const rnd_half]
  by (simp add: fd_all_rules_def)

text \<open>
  Claim C3.  For one and the same random sequence, the risk score returned for form data
  that satisfies all four trigger conditions is at least the risk score returned for form
  data that satisfies none of them.
\<close>

theorem C3_all_rules_not_below_no_rules:
  assumes "transaction_amount fdAll > 10000" and "account_age_days fdAll < 30"
    and "\<not> kyc_verified fdAll"
    and "channel fdAll = ''mobile'' \<and> transaction_amount fdAll > 5000"
    and "transaction_amount fdNone \<le> 10000" and "account_age_days fdNone \<ge> 30"
    and "kyc_verified fdNone"
    and "\<not> (channel fdNone = ''mobile'' \<and> transaction_amount fdNone > 5000)"
  shows "risk_score (generateEnhancedMockPrediction numStr rnd fdNone)
           \<le> risk_score (generateEnhancedMockPrediction numStr rnd fdAll)"
proof -
  have "riskScore (scorer_rules rnd fdNone) = rnd 0 * 0.3 + 0.7"
    using assms(5-8) by (simp add: scorer_rules_none scorer_init_def)
  moreover have "riskScore (scorer_rules rnd fdAll) = rnd 0 * 0.3 + 0.7 + 0.2 + 0.15 + 0.1 + 0.1"
    using assms(1-4) by (simp add: scorer_rules_all(2))
  ultimately have "riskScore (scorer_rules rnd fdNone) \<le> riskScore (scorer_rules rnd fdAll)"
    by simp
  then show ?thesis
    unfolding risk_score_eq by (rule normalize_risk_mono)
qed

theorem C3_all_rules_not_below_no_rules_witness:
  "transaction_amount fd_all_rules > 10000 \<and> account_age_days fd_all_rules < 30
   \<and> \<not> kyc_verified fd_all_rules
   \<and> channel fd_all_rules = ''mobile'' \<and> transaction_amount fd_all_rules > 5000
   \<and> transaction_amount fd_no_rules \<le> 10000 \<and> account_age_days fd_no_rules \<ge> 30
   \<and> kyc_verified fd_no_rules
   \<and> \<not> (channel fd_no_rules = ''mobile'' \<and> transaction_amount fd_no_rules > 5000)
   \<and> risk_score (generateEnhancedMockPrediction numStr_const rnd_half fd_no_rules)
           \<le> risk_score (generateEnhancedMockPrediction numStr_const rnd_half fd_all_rules)"
  using C3_all_rules_not_below_no_rules [of fd_all_rules fd_no_rules numStr_const rnd_half]
  by (simp add: fd_all_rules_def fd_no_rules_def)

text \<open>
  Claim C10.  When none of the four trigger conditions holds, the returned \<open>is_fraud\<close> is
  false and \<open>rules_triggered\<close> is empty, for every random sequence.
\<close>

theorem C10_no_rule_no_fraud:
  assumes "transaction_amount fd \<le> 10000" and "account_age_days fd \<ge> 30"
    and "kyc_verified fd"
    and "\<not> (channel fd = ''mobile'' \<and> transaction_amount fd > 5000)"
  shows "is_fraud (generateEnhancedMockPrediction numStr rnd fd) = False
         \<and> rules_triggered (generateEnhancedMockPrediction numStr rnd fd) = []"
  using assms by (simp add: is_fraud_eq rules_triggered_eq scorer_rules_none scorer_init_def)

theorem C10_no_rule_no_fraud_witness:
  "transaction_amount fd_no_rules \<le> 10000 \<and> account_age_days fd_no_rules \<ge> 30
   \<and> kyc_verified fd_no_rules
   \<and> \<not> (channel fd_no_rules = ''mobile'' \<and> transaction_amount fd_no_rules > 5000)
   \<and> is_fraud (generateEnhancedMockPrediction numStr_const rnd_half fd_no_rules) = False
   \<and> rules_triggered (generateEnhancedMockPrediction numStr_const rnd_half fd_no_rules) = []"
  using C10_no_rule_no_fraud [of fd_no_rules numStr_const rnd_half]
  by (simp add: fd_no_rules_def)

text \<open>
  The index \<open>Math.floor(Math.random() * 3)\<close> is 0, 1 or 2 for a random value in [0, 1), so
  the explanation is an element of the pool and never \<open>undefined\<close>.
\<close>

lemma js_index_floor3:
  assumes "0 \<le> r" "r < 1" "length xs = 3"
  shows "\<exists>e. js_index xs \<lfloor>r * real (length xs)\<rfloor> = Some e \<and> e \<in> set xs"
proof -
  have "0 \<le> \<lfloor>r * 3\<rfloor>" using assms(1) by simp
  moreover have "\<lfloor>r * 3\<rfloor> < 3" using assms(2) by (simp add: floor_less_iff)
  ultimately have "0 \<le> \<lfloor>r * 3\<rfloor> \<and> nat \<lfloor>r * 3\<rfloor> < 3" by linarith
  then show ?thesis using assms(3) by (simp add: js_index_def)
qed

lemma explanation_defined:
  assumes "0 \<le> rnd p" "rnd p < 1"
  shows "\<exists>e. generateLLMExplanation numStr rnd p fd b r = Some e
           \<and> e \<in> set (if b then explanations_fraud numStr fd else explanations_legitimate numStr fd)"
proof -
  have "length (if b then explanations_fraud numStr fd else explanations_legitimate numStr fd) = 3"
    by (simp add: explanations_fraud_def explanations_legitimate_def)
  from js_index_floor3 [OF assms this] show ?thesis
    by (simp add: generateLLMExplanation_def Let_def)
qed

text \<open>
  Claim C7.  The scorer has no statement that throws: it compares and adds numbers, pushes
  onto an array and reads an array by index, and the model has a branch for the one read
  that could yield \<open>undefined\<close>.  For form data with an amount of zero or below, and random
  values in [0, 1) as \<open>Math.random()\<close> gives them, the scorer returns an object with every
  field defined: a verdict, a risk score within [0.05, 0.95], the triggered rules (the two
  amount rules not among them) and an explanation taken from the pool for that verdict.
\<close>

theorem C7_verdict_for_nonpositive_amount:
  assumes "transaction_amount fd \<le> 0" and "\<forall>i. 0 \<le> rnd i \<and> rnd i < 1"
  shows "\<exists>b r rules e.
           generateEnhancedMockPrediction numStr rnd fd =
             \<lparr>is_fraud = b, prediction = (if b then 1 else 0), fraud = b, risk_score = r,
              confidence = r, rules_triggered = rules, llm_explanation = Some e\<rparr>
           \<and> 0.05 \<le> r \<and> r \<le> 0.95
           \<and> e \<in> set (if b then explanations_fraud numStr fd else explanations_legitimate numStr fd)
           \<and> ''Amount exceeds threshold'' \<notin> set rules
           \<and> ''High mobile transaction'' \<notin> set rules"
proof -
  define s where "s = scorer_rules rnd fd"
  have amt: "\<not> transaction_amount fd > 10000" "\<not> transaction_amount fd > 5000"
    using assms(1) by simp_all
  have rules: "''Amount exceeds threshold'' \<notin> set (rulesTriggered s)"
    "''High mobile transaction'' \<notin> set (rulesTriggered s)"
    using amt by (simp_all add: s_def rule_defs)
  obtain e where e: "generateLLMExplanation numStr rnd (pos s) fd (isFraud s)
        (normalize_risk (riskScore s)) = Some e"
      "e \<in> set (if isFraud s then explanations_fraud numStr fd else explanations_legitimate numStr fd)"
    using explanation_defined [of rnd "pos s"] assms(2) by blast
  show ?thesis
    apply (rule exI [of _ "isFraud s"], rule exI [of _ "normalize_risk (riskScore s)"],
        rule exI [of _ "rulesTriggered s"], rule exI [of _ e])
    using e rules normalize_risk_bounds [of "riskScore s"]
    by (simp add: generateEnhancedMockPrediction_def Let_def s_def [symmetric])
qed

theorem C7_verdict_for_nonpositive_amount_witness:
  "transaction_amount fd_negative_amount \<le> 0
   \<and> (\<forall>i. 0 \<le> rnd_half i \<and> rnd_half i < 1)
   \<and> (\<exists>e. llm_explanation
             (generateEnhancedMockPrediction numStr_const rnd_half fd_negative_amount) = Some e)"
proof -
  have amount: "transaction_amount fd_negative_amount \<le> 0"
    by (simp add: fd_negative_amount_def)
  have random: "\<forall>i. 0 \<le> rnd_half i \<and> rnd_half i < 1"
    by (simp add: rnd_half_def)
  from C7_verdict_for_nonpositive_amount [OF amount random, of numStr_const]
  obtain b r rules e where
    "generateEnhancedMockPrediction numStr_const rnd_half fd_negative_amount =
       \<lparr>is_fraud = b, prediction = (if b then 1 else 0), fraud = b, risk_score = r,
        confidence = r, rules_triggered = rules, llm_explanation = Some e\<rparr>"
    by blast
  then have "llm_explanation
      (generateEnhancedMockPrediction numStr_const rnd_half fd_negative_amount) = Some e"
    by simp
  with amount random show ?thesis by blast
qed

section \<open>Properties of the transaction history\<close>

text \<open>What each save leaves under the key: the new record in front of the old list.\<close>

lemma getHistory_saveEnhanced:
  "getHistory (saveToEnhancedTransactionHistory now nowIso fd res st)
     = Enhanced (enhancedTransactionRecord now nowIso fd res) # getHistory st"
  by (simp add: saveToEnhancedTransactionHistory_def getHistory_def Let_def)

lemma getHistory_saveFirst:
  "getHistory (saveToTransactionHistory_first now nowIso fd res st)
     = take 100 (Basic (basicTransactionRecord now nowIso fd res) # getHistory st)"
  by (simp add: saveToTransactionHistory_first_def getHistory_def Let_def)

lemma getHistory_savePlain:
  "getHistory (saveToTransactionHistory numStr now nowIso fd res st)
     = Plain (plainTransactionRecord numStr now nowIso fd res) # getHistory st"
  by (simp add: saveToTransactionHistory_def getHistory_def Let_def)

text \<open>
  The first declaration keeps the bound, whatever the store held before; the declaration
  in effect adds one record to any history, a full one included.
\<close>

lemma saveToTransactionHistory_first_bounded:
  "length (getHistory (saveToTransactionHistory_first now nowIso fd res st)) \<le> 100"
  unfolding getHistory_saveFirst by simp

lemma saveToTransactionHistory_grows:
  "length (getHistory (saveToTransactionHistory numStr now nowIso fd res st))
     = Suc (length (getHistory st))"
  unfolding getHistory_savePlain by simp

lemma full_storage_length: "length (getHistory full_storage) = 100"
  by (simp add: full_storage_def getHistory_def)

text \<open>
  Claim C8.  The claim is that every save leaves at most 100 records in the stored
  history.  \<open>saveToEnhancedTransactionHistory\<close>, the save that \<open>checkTransaction\<close> calls,
  prepends the new record and writes the list back without truncating it: on a store
  that holds 100 records it leaves 101.
\<close>

theorem C8_enhanced_save_exceeds_bound:
  "length (getHistory full_storage) = 100
   \<and> length (getHistory
        (saveToEnhancedTransactionHistory 1 ''t1'' fd_no_rules res_no_rules full_storage)) = 101"
  by (simp add: getHistory_saveEnhanced full_storage_length)

section \<open>Properties of the CSV analytics\<close>

text \<open>The uniqueness metric is NaN for every dataset, since it divides \<open>undefined\<close>.\<close>

lemma uniqueness_always_NaN: "calculateDataUniqueness ds = NaN"
  by (simp add: calculateDataUniqueness_def Let_def)

text \<open>
  A file with a header line and no data line parses to a dataset with no row; a file with
  no line at all makes \<open>parseCSV\<close> throw, so no report is produced for it.
\<close>

lemma parseCSV_header_only: "parseCSV ''a,b'' = Inr header_only_dataset"
  by (simp add: parseCSV_def header_only_dataset_def csv_fields_def js_trim_def
      js_whitespace_def Let_def)

lemma parseCSV_empty: "parseCSV [] = Inl TypeError"
  by (simp add: parseCSV_def js_trim_def Let_def)

text \<open>
  Claim C5.  The claim is that a dataset with no data row reports completeness,
  consistency and uniqueness as 0.  For the dataset parsed from a file that holds only the
  header line \<open>a,b\<close>, the three metrics are NaN: completeness and consistency divide 0 by
  0, and uniqueness divides \<open>undefined\<close>.  No error is raised.
\<close>

theorem C5_header_only_metrics:
  "parseCSV ''a,b'' = Inr header_only_dataset
   \<and> displayDataQuality header_only_dataset =
       \<lparr>completeness = NaN, consistency = NaN, uniqueness = NaN, emptyCells = 0\<rparr>"
  by (simp add: parseCSV_header_only displayDataQuality_def header_only_dataset_def
      calculateDataConsistency_def calculateDataUniqueness_def Let_def)

text \<open>The comparison of a ratio of counts with 0.8, in whole percents.\<close>

lemma ratio_gt_08:
  assumes "n > 0"
  shows "(real k / real n > 0.8) = (100 * k > 80 * n)"
proof -
  have "(real k / real n > 0.8) = (real (80 * n) < real (100 * k))"
    using assms by (simp add: field_simps)
  also have "\<dots> = (80 * n < 100 * k)" by (simp only: of_nat_less_iff)
  finally show ?thesis .
qed

lemma inferDataType_nonempty:
  assumes "values \<noteq> []"
  shows "inferDataType strIsNaN dateIsNaN values =
     (if real (length (filter (\<lambda>v. \<not> strIsNaN v \<and> js_trim v \<noteq> []) (take 100 values)))
           / real (length (take 100 values)) > 0.8 then ''Numeric''
      else if real (length (filter (\<lambda>v. \<not> dateIsNaN v \<and> js_trim v \<noteq> []) (take 100 values)))
           / real (length (take 100 values)) > 0.8 then ''Date''
      else ''Text'')"
  using assms unfolding inferDataType_def Let_def by simp

text \<open>
  Claim C6, as amended.  For a column with at least one value, type inference looks only at
  the first 100 values and answers Numeric if more than 80 percent of them parse as
  numbers, otherwise Date if more than 80 percent of them parse as dates, otherwise Text.
  The thresholds are strict: exactly 80 percent is not enough.
\<close>

theorem C6_inferDataType_thresholds:
  assumes "values \<noteq> []"
  shows "inferDataType strIsNaN dateIsNaN values =
           (let sample = take 100 values;
                numericCount = length (filter (\<lambda>v. \<not> strIsNaN v \<and> js_trim v \<noteq> []) sample);
                dateCount = length (filter (\<lambda>v. \<not> dateIsNaN v \<and> js_trim v \<noteq> []) sample)
            in if 100 * numericCount > 80 * length sample then ''Numeric''
               else if 100 * dateCount > 80 * length sample then ''Date''
               else ''Text'')
         \<and> inferDataType strIsNaN dateIsNaN values
             = inferDataType strIsNaN dateIsNaN (take 100 values)"
proof -
  have pos: "length (take 100 values) > 0" using assms by (cases "values") simp_all
  have ne: "take 100 values \<noteq> []" using pos by auto
  have first: "inferDataType strIsNaN dateIsNaN values =
           (let sample = take 100 values;
                numericCount = length (filter (\<lambda>v. \<not> strIsNaN v \<and> js_trim v \<noteq> []) sample);
                dateCount = length (filter (\<lambda>v. \<not> dateIsNaN v \<and> js_trim v \<noteq> []) sample)
            in if 100 * numericCount > 80 * length sample then ''Numeric''
               else if 100 * dateCount > 80 * length sample then ''Date''
               else ''Text'')"
    unfolding inferDataType_nonempty [OF assms] Let_def ratio_gt_08 [OF pos] by (rule refl)
  have "take 100 (take 100 values) = take 100 values" by simp
  then have second: "inferDataType strIsNaN dateIsNaN (take 100 values)
      = inferDataType strIsNaN dateIsNaN values"
    unfolding inferDataType_nonempty [OF assms] inferDataType_nonempty [OF ne] by simp
  from first second show ?thesis by simp
qed

theorem C6_inferDataType_thresholds_witness:
  "five_of_six \<noteq> [] \<and> inferDataType digitsIsNaN dateNever five_of_six = ''Numeric''"
  using C6_inferDataType_thresholds [of five_of_six digitsIsNaN dateNever]
  by (simp add: five_of_six_def digitsIsNaN_def js_trim_def js_whitespace_def Let_def)

text \<open>
  Claim C6 as stated fails: of the five values \<open>1, 2, 3, 4, abc\<close> four parse as numbers,
  which is 80 percent, and the column is not classified Numeric, whatever the date parser
  accepts.
\<close>

theorem C6_exactly_80_percent_counterexample:
  "100 * length (filter (\<lambda>v. \<not> digitsIsNaN v \<and> js_trim v \<noteq> []) (take 100 four_of_five))
      \<ge> 80 * length (take 100 four_of_five)
   \<and> inferDataType digitsIsNaN dateNever four_of_five = ''Text''
   \<and> inferDataType digitsIsNaN dateAlways four_of_five = ''Date''"
  by (simp add: inferDataType_def four_of_five_def digitsIsNaN_def dateNever_def dateAlways_def
      js_trim_def js_whitespace_def Let_def)

subsection \<open>Median\<close>

text \<open>
  The sort keeps the values and changes only their order, and for an array without NaN
  the function returns.
\<close>

lemma mset_js_insort: "mset (js_insort x xs) = add_mset x (mset xs)"
  by (induction xs) simp_all

lemma js_sort_numbers_mset:
  "js_sort_numbers xs = Some ys \<Longrightarrow> mset ys = mset xs"
proof -
  have "mset (foldr js_insort xs []) = mset xs"
    by (induction xs) (simp_all add: mset_js_insort)
  then show "js_sort_numbers xs = Some ys \<Longrightarrow> mset ys = mset xs"
    by (auto simp add: js_sort_numbers_def split: if_splits)
qed

lemma calculateMedian_same_values:
  "calculateMedian fl values = Some (m, after) \<Longrightarrow> mset after = mset values"
  by (auto simp add: calculateMedian_def Let_def js_sort_numbers_mset split: option.splits)

lemma calculateMedian_defined:
  "NaN \<notin> set values \<Longrightarrow> \<exists>m after. calculateMedian fl values = Some (m, after)"
  by (simp add: calculateMedian_def js_sort_numbers_def Let_def)

text \<open>The dataset of the text \<open>a\<close>, \<open>3\<close>, \<open>1\<close>, \<open>2\<close>, and the array built from its column.\<close>

lemma parseCSV_unsorted: "parseCSV unsortedText = Inr unsortedDataset"
  by (simp add: parseCSV_def unsortedText_def unsortedDataset_def csv_row_def csv_fields_def
      js_trim_def js_whitespace_def js_index_def enumerate_eq_zip Let_def)

lemma unsorted_values:
  "numericValues simpleParseFloat (data unsortedDataset) ''a'' = [Num 3, Num 1, Num 2]"
  by (simp add: numericValues_def unsortedDataset_def simpleParseFloat_def digitsIsNaN_def)

lemma median_312:
  "calculateMedian fl [Num 3, Num 1, Num 2] = Some (Num 2, [Num 1, Num 2, Num 3])"
  by (simp add: calculateMedian_def js_sort_numbers_def js_compare_le_def js_index_num_def
      js_index_def Let_def)

text \<open>
  Claim C9.  The claim is that computing the median returns the median and leaves the
  caller's sequence unchanged.  For the column \<open>3, 1, 2\<close> the array handed to
  \<open>calculateMedian\<close> is \<open>[3, 1, 2]\<close>; the function returns the median 2, and the caller's
  array reads \<open>[1, 2, 3]\<close> afterwards, under every rounding.  The rows of the dataset are
  not written, since the array is built by the caller for this call.
\<close>

theorem C9_median_reorders_callers_array:
  "parseCSV unsortedText = Inr unsortedDataset
   \<and> numericValues simpleParseFloat (data unsortedDataset) ''a'' = [Num 3, Num 1, Num 2]
   \<and> distributionMedian fl simpleParseFloat unsortedDataset ''a''
       = Some (Num 2, [Num 1, Num 2, Num 3])
   \<and> [Num 1, Num 2, Num 3] \<noteq> [Num 3, Num 1, Num 2]"
  by (simp add: parseCSV_unsorted distributionMedian_def unsorted_values median_312 Let_def)

text \<open>
  For an even length the mean of the two middle values is computed in doubles: when their
  sum is beyond the range, the result is an infinity.
\<close>

lemma calculateMedian_overflow:
  assumes "fl (a + a) = PosInf"
  shows "calculateMedian fl [Num a, Num a] = Some (PosInf, [Num a, Num a])"
  using assms
  by (simp add: calculateMedian_def js_sort_numbers_def js_compare_le_def js_index_num_def
      js_index_def fadd_def fdiv_def Let_def)

subsection \<open>Correlation\<close>

text \<open>
  Multiplication is commutative under every rounding, so the two mirrored computations of
  an off-diagonal pair go through the same values.
\<close>

lemma js_mul_commute: "js_mul a b = js_mul b a"
  by (cases a; cases b) (simp_all add: mult.commute)

lemma fmul_commute: "fmul fl a b = fmul fl b a"
  unfolding fmul_def by (subst js_mul_commute) (rule refl)

lemma sumXY_commute:
  "foldl (\<lambda>a (b, yi). fadd fl a (fmul fl b yi)) a0 (zip x y)
     = foldl (\<lambda>a (b, yi). fadd fl a (fmul fl b yi)) a0 (zip y x)"
proof (induction x arbitrary: y a0)
  case Nil
  then show ?case by simp
next
  case (Cons v vs)
  show ?case
  proof (cases y)
    case Nil
    then show ?thesis by simp
  next
    case (Cons w ws)
    have "fmul fl v w = fmul fl w v" by (rule fmul_commute)
    then show ?thesis using Cons.IH [of "fadd fl a0 (fmul fl w v)" ws]
      by (simp add: Cons)
  qed
qed

lemma calculateCorrelation_commute:
  "calculateCorrelation fl x y = calculateCorrelation fl y x"
proof (cases "length x = length y")
  case True
  have num: "fsub fl (fmul fl n (foldl (\<lambda>a (b, yi). fadd fl a (fmul fl b yi)) (Num 0) (zip x y)))
                 (fmul fl (foldl (\<lambda>a b. fadd fl a b) (Num 0) x) (foldl (\<lambda>a b. fadd fl a b) (Num 0) y))
           = fsub fl (fmul fl n (foldl (\<lambda>a (b, yi). fadd fl a (fmul fl b yi)) (Num 0) (zip y x)))
                 (fmul fl (foldl (\<lambda>a b. fadd fl a b) (Num 0) y) (foldl (\<lambda>a b. fadd fl a b) (Num 0) x))"
    for n
    by (simp only: sumXY_commute [of fl "Num 0" x y]
        fmul_commute [of fl "foldl (\<lambda>a b. fadd fl a b) (Num 0) x" "foldl (\<lambda>a b. fadd fl a b) (Num 0) y"])
  have den: "fmul fl (fsub fl (fmul fl n (foldl (\<lambda>a b. fadd fl a (fmul fl b b)) (Num 0) x))
                        (fmul fl (foldl (\<lambda>a b. fadd fl a b) (Num 0) x) (foldl (\<lambda>a b. fadd fl a b) (Num 0) x)))
                    (fsub fl (fmul fl n (foldl (\<lambda>a b. fadd fl a (fmul fl b b)) (Num 0) y))
                        (fmul fl (foldl (\<lambda>a b. fadd fl a b) (Num 0) y) (foldl (\<lambda>a b. fadd fl a b) (Num 0) y)))
           = fmul fl (fsub fl (fmul fl n (foldl (\<lambda>a b. fadd fl a (fmul fl b b)) (Num 0) y))
                        (fmul fl (foldl (\<lambda>a b. fadd fl a b) (Num 0) y) (foldl (\<lambda>a b. fadd fl a b) (Num 0) y)))
                    (fsub fl (fmul fl n (foldl (\<lambda>a b. fadd fl a (fmul fl b b)) (Num 0) x))
                        (fmul fl (foldl (\<lambda>a b. fadd fl a b) (Num 0) x) (foldl (\<lambda>a b. fadd fl a b) (Num 0) x)))"
    for n
    by (rule fmul_commute)
  show ?thesis
    unfolding calculateCorrelation_def Let_def
    by (simp only: True num den)
next
  case False
  then show ?thesis by (auto simp add: calculateCorrelation_def)
qed

text \<open>
  Under every rounding the entries (i, j) and (j, i) are the same value, NaN included,
  and the diagonal is 1.
\<close>

lemma matrix_entry:
  assumes "i < length columns" "j < length columns"
  shows "calculateCorrelationMatrix fl pf columns rows ! i ! j =
    (if i = j then Num 1
     else calculateCorrelation fl (numericValues pf rows (columns ! i))
            (numericValues pf rows (columns ! j)))"
  using assms by (simp add: calculateCorrelationMatrix_def)

lemma matrix_same_value:
  assumes "i < length columns" and "j < length columns"
  shows "calculateCorrelationMatrix fl pf columns rows ! i ! j
           = calculateCorrelationMatrix fl pf columns rows ! j ! i"
proof (cases "i = j")
  case True
  then show ?thesis by simp
next
  case False
  then have "j \<noteq> i" by simp
  with False show ?thesis
    unfolding matrix_entry [OF assms] matrix_entry [OF assms(2) assms(1)]
    by (simp only: if_False) (rule calculateCorrelation_commute)
qed

lemma matrix_diagonal:
  assumes "i < length columns"
  shows "calculateCorrelationMatrix fl pf columns rows ! i ! i = Num 1"
  unfolding matrix_entry [OF assms assms] by simp

text \<open>
  The guard \<open>denominator === 0\<close> does not catch a NaN denominator: when the rounded
  argument of \<open>Math.sqrt\<close> is negative or NaN, the correlation is NaN.
\<close>

lemma calculateCorrelation_radicand:
  assumes "length x = length y" "x \<noteq> []"
  shows "calculateCorrelation fl x y =
     (let denominator = fsqrt fl (correlation_radicand fl x y)
      in if denominator = Num 0 then Num 0
         else fdiv fl (fsub fl (fmul fl (Num (real (length x)))
                          (foldl (\<lambda>a (b, yi). fadd fl a (fmul fl b yi)) (Num 0) (zip x y)))
                        (fmul fl (foldl (\<lambda>a b. fadd fl a b) (Num 0) x)
                                 (foldl (\<lambda>a b. fadd fl a b) (Num 0) y)))
                      denominator)"
proof -
  have "length y \<noteq> 0" using assms by auto
  then show ?thesis
    using assms by (simp add: calculateCorrelation_def correlation_radicand_def Let_def)
qed

lemma js_div_NaN: "js_div a NaN = NaN"
  by (cases a) simp_all


lemma NaN_radicand_gives_NaN:
  assumes "length x = length y" "x \<noteq> []" "correlation_radicand fl x y = NaN"
  shows "calculateCorrelation fl x y = NaN"
  using assms(3) unfolding calculateCorrelation_radicand [OF assms(1,2)]
  by (simp add: fsqrt_def fdiv_def js_div_NaN Let_def)

text \<open>The dataset of the text \<open>a,b\<close>, \<open>Infinity,1\<close>, \<open>2,3\<close>: both columns count as numeric.\<close>

lemma parseCSV_inf: "parseCSV infText = Inr infDataset"
  by (simp add: parseCSV_def infText_def infDataset_def abRow_def csv_row_def csv_fields_def
      js_trim_def js_whitespace_def js_index_def enumerate_eq_zip Let_def)

lemma infDataset_columns: "numericColumns simpleIsNaN infDataset = [''a'', ''b'']"
  by (simp add: numericColumns_def columnValues_def infDataset_def abRow_def cell_missing_def
      List.map_filter_def js_trim_def js_whitespace_def simpleIsNaN_def digitsIsNaN_def)

lemma infDataset_values:
  "numericValues simpleParseFloat (data infDataset) ''a'' = [PosInf, Num 2]"
  "numericValues simpleParseFloat (data infDataset) ''b'' = [Num 1, Num 3]"
  by (simp_all add: numericValues_def infDataset_def abRow_def simpleParseFloat_def digitsIsNaN_def)

lemma inf_correlation:
  "calculateCorrelation exact [PosInf, Num 2] [Num 1, Num 3] = NaN"
  "calculateCorrelation exact [Num 1, Num 3] [PosInf, Num 2] = NaN"
  by (simp_all add: calculateCorrelation_def Let_def fadd_def fmul_def fsub_def fsqrt_def fdiv_def exact_def)

text \<open>
  With an infinite cell the sums are infinite, their difference is NaN, and the
  off-diagonal entries are NaN as well.  Every intermediate result of this run is a whole
  number, an infinity or NaN, so no rounding takes place.
\<close>

lemma infinite_cell_matrix:
  "parseCSV infText = Inr infDataset
   \<and> displayCorrelationAnalysis exact simpleIsNaN simpleParseFloat infDataset
       = Some [[Num 1, NaN], [NaN, Num 1]]
   \<and> \<not> js_strict_equal ([[Num 1, NaN], [NaN, Num 1]] ! 0 ! 1) ([[Num 1, NaN], [NaN, Num 1]] ! 1 ! 0)"
  by (simp add: parseCSV_inf displayCorrelationAnalysis_def infDataset_columns
      calculateCorrelationMatrix_def infDataset_values inf_correlation js_strict_equal_def Let_def)






























lemma constant_column_correlation_exact:
  "calculateCorrelation exact
     [Num (7033355980557517 / 70368744177664), Num (7033355980557517 / 70368744177664),
      Num (7033355980557517 / 70368744177664)] [Num 1, Num 2, Num 3] = Num 0"
  by (simp add: calculateCorrelation_def Let_def fadd_def fmul_def fsub_def fsqrt_def exact_def)





text \<open>
  The example of two perfectly linear columns, parsed from the CSV text: the correlation
  of \<open>a\<close> and \<open>b\<close> is 1.
\<close>

lemma parseCSV_ab:
  "parseCSV abText = Inr \<lparr>headers = [''a'', ''b''], data = abRows, rawText = abText\<rparr>"
  by (simp add: parseCSV_def abText_def abRows_def abRow_def csv_row_def csv_fields_def
      js_trim_def js_whitespace_def js_index_def enumerate_eq_zip Let_def)

lemma abRows_values:
  "numericValues simpleParseFloat abRows ''a'' = [Num 1, Num 3, Num 5]"
  "numericValues simpleParseFloat abRows ''b'' = [Num 2, Num 4, Num 6]"
  by (simp_all add: numericValues_def abRows_def abRow_def simpleParseFloat_def digitsIsNaN_def)

lemma abRows_correlation:
  "calculateCorrelation exact (numericValues simpleParseFloat abRows ''a'')
     (numericValues simpleParseFloat abRows ''b'') = Num 1"
proof -
  have s: "sqrt 576 = 24" using real_sqrt_abs2 [of 24] by simp
  show ?thesis
    by (simp add: abRows_values calculateCorrelation_def Let_def fadd_def fmul_def fsub_def
        fsqrt_def fdiv_def exact_def s)
qed

end
